theory Spec2Isabelle
  imports
    Main
    "HOL-Library.Sublist"
    "HOL-Library.AList"
    "HOL-Library.Char_ord"
    "HOL-Library.List_Lexorder"
begin

section \<open>Data model\<close>

text \<open>
  Modelled from the spec: the type declarations of \<^verbatim>\<open>@/types/paper\<close> (\<^verbatim>\<open>Paper\<close>,
  \<^verbatim>\<open>DailyPapers\<close>) are not among the sources; the fields are those of the spec's data model
  and of the fixtures in the test files. Optional fields are options. The field \<^verbatim>\<open>id\<close> is
  written \<open>id'\<close>, since \<open>id\<close> is the identity function of HOL.

  JavaScript strings are modelled as \<open>string\<close>, a list of 8-bit characters compared by
  their codes.
\<close>

record Paper =
  id' :: string
  title :: string
  authors :: "string list"
  abstract :: string
  summary :: string
  url :: string
  pdfUrl :: "string option"
  thumbnailUrl :: "string option"
  upvotes :: nat
  publishedAt :: string
  fetchedAt :: string
  tags :: "string list"
  arxivId :: "string option"

record DailyPapers =
  date :: string
  papers :: "Paper list"
  generatedAt :: string

text \<open>
  Exceptions are values. \<open>SyntaxError\<close> is what \<^verbatim>\<open>JSON.parse\<close> throws, \<open>TypeError\<close> what a
  method call on \<^verbatim>\<open>undefined\<close> throws, \<open>SystemError\<close> what \<^verbatim>\<open>fs\<close> throws; each carries
  its message.
\<close>

datatype error = SyntaxError string | TypeError string | SystemError string

section \<open>The content directory\<close>

text \<open>
  \<^verbatim>\<open>CONTENT_DIR\<close> is a flat directory: \<open>None\<close> when it does not exist, otherwise its
  entries, each a file name with the file's text. \<^verbatim>\<open>path.join(CONTENT_DIR, name)\<close> addresses
  the entry \<open>name\<close>. A lookup takes the first entry of that name.
\<close>

type_synonym dir = "(string \<times> string) list"
type_synonym fs = "dir option"

definition dirExists :: "fs \<Rightarrow> bool" where
  "dirExists s = (s \<noteq> None)"

definition mkdirSync :: "fs \<Rightarrow> fs" where
  "mkdirSync s = (case s of None \<Rightarrow> Some [] | Some es \<Rightarrow> Some es)"

definition entries :: "fs \<Rightarrow> dir" where
  "entries s = (case s of None \<Rightarrow> [] | Some es \<Rightarrow> es)"

definition readdirSync :: "fs \<Rightarrow> string list" where
  "readdirSync s = map fst (entries s)"

definition existsSync :: "fs \<Rightarrow> string \<Rightarrow> bool" where
  "existsSync s name = (map_of (entries s) name \<noteq> None)"

definition readFileSync :: "fs \<Rightarrow> string \<Rightarrow> error + string" where
  "readFileSync s name =
     (case map_of (entries s) name of
        None \<Rightarrow> Inl (SystemError (''ENOENT: no such file or directory, open '' @ name))
      | Some raw \<Rightarrow> Inr raw)"

definition writeFileSync :: "fs \<Rightarrow> string \<Rightarrow> string \<Rightarrow> fs" where
  "writeFileSync s name raw = Some (AList.update name raw (entries s))"

section \<open>String operations of the runtime\<close>

text \<open>\<^verbatim>\<open>s.endsWith(suf)\<close>.\<close>

definition endsWith :: "string \<Rightarrow> string \<Rightarrow> bool" where
  "endsWith s suf = suffix suf s"

text \<open>
  \<^verbatim>\<open>s.replace(pat, rep)\<close> with a string pattern: only the first occurrence of \<open>pat\<close>,
  scanning from the left, is replaced (\<open>rep\<close> holds no \<^verbatim>\<open>$\<close> pattern here).
\<close>

fun replace :: "string \<Rightarrow> string \<Rightarrow> string \<Rightarrow> string" where
  "replace pat rep [] = (if pat = [] then rep else [])"
| "replace pat rep (c # cs) =
     (if prefix pat (c # cs) then rep @ drop (length pat) (c # cs)
      else c # replace pat rep cs)"

text \<open>
  \<^verbatim>\<open>s.includes(q)\<close>: whether \<open>q\<close> occurs in \<open>s\<close> at some position, tried from the left.
  The function is written \<open>includes'\<close>, the plain name being reserved by Isabelle.
\<close>

fun includes' :: "string \<Rightarrow> string \<Rightarrow> bool" where
  "includes' [] q = (q = [])"
| "includes' (c # cs) q = (prefix q (c # cs) \<or> includes' cs q)"

text \<open>
  \<^verbatim>\<open>s.toLowerCase()\<close>, on the ASCII letters: \<^verbatim>\<open>A\<close> to \<^verbatim>\<open>Z\<close> move to \<^verbatim>\<open>a\<close> to \<^verbatim>\<open>z\<close>, every
  other character stays.
\<close>

definition lowerChar :: "char \<Rightarrow> char" where
  "lowerChar c =
     (if CHR ''A'' \<le> c \<and> c \<le> CHR ''Z'' then char_of (of_char c + (32 :: nat)) else c)"

definition toLowerCase :: "string \<Rightarrow> string" where
  "toLowerCase s = map lowerChar s"

section \<open>The repository: \<^verbatim>\<open>src/lib/papers.ts\<close>\<close>

definition ensureContentDir :: "fs \<Rightarrow> fs" where
  "ensureContentDir s = (if \<not> dirExists s then mkdirSync s else s)"

text \<open>
  The read operations change the state only through \<open>ensureContentDir\<close>, which is
  idempotent and leaves the entries as they are; they are written as functions of the
  state they are called in. \<open>saveDailyPapers\<close> returns the new state.
\<close>

definition getAllDates :: "fs \<Rightarrow> string list" where
  "getAllDates s =
     (let files = readdirSync (ensureContentDir s)
      in rev (sort (map (\<lambda>f. replace ''.json'' [] f)
                        (filter (\<lambda>f. endsWith f ''.json'') files))))"

text \<open>
  \<^verbatim>\<open>JSON.parse\<close> and \<^verbatim>\<open>JSON.stringify\<close> belong to the runtime, not to the repository: they
  are parameters. \<open>parse raw\<close> is a \<open>SyntaxError\<close>, or the value that the code casts to
  \<^verbatim>\<open>DailyPapers | null\<close>: \<open>None\<close> is \<^verbatim>\<open>null\<close>, which is what the text \<^verbatim>\<open>null\<close> parses to.
\<close>

type_synonym parser = "string \<Rightarrow> error + DailyPapers option"
type_synonym printer = "DailyPapers \<Rightarrow> string"

definition getPapersForDate :: "parser \<Rightarrow> fs \<Rightarrow> string \<Rightarrow> error + DailyPapers option" where
  "getPapersForDate parse s d =
     (let s' = ensureContentDir s; filePath = d @ ''.json''
      in if \<not> existsSync s' filePath then Inr None
         else (case readFileSync s' filePath of
                 Inl e \<Rightarrow> Inl e
               | Inr raw \<Rightarrow> parse raw))"

definition getLatestPapers :: "parser \<Rightarrow> fs \<Rightarrow> error + DailyPapers option" where
  "getLatestPapers parse s =
     (let dates = getAllDates s
      in if length dates = 0 then Inr None
         else getPapersForDate parse s (hd dates))"

text \<open>The loop of \<^verbatim>\<open>getAllPapers\<close>: \<open>all\<close> is the array built so far.\<close>

fun getAllPapers_loop ::
  "parser \<Rightarrow> fs \<Rightarrow> string list \<Rightarrow> Paper list \<Rightarrow> error + Paper list" where
  "getAllPapers_loop parse s [] all = Inr all"
| "getAllPapers_loop parse s (d # dates) all =
     (case getPapersForDate parse s d of
        Inl e \<Rightarrow> Inl e
      | Inr daily \<Rightarrow>
          getAllPapers_loop parse s dates
            (case daily of None \<Rightarrow> all | Some dp \<Rightarrow> all @ papers dp))"

definition getAllPapers :: "parser \<Rightarrow> fs \<Rightarrow> error + Paper list" where
  "getAllPapers parse s = getAllPapers_loop parse s (getAllDates s) []"

definition getPaperById :: "parser \<Rightarrow> fs \<Rightarrow> string \<Rightarrow> error + Paper option" where
  "getPaperById parse s i =
     (case getAllPapers parse s of
        Inl e \<Rightarrow> Inl e
      | Inr all \<Rightarrow> Inr (find (\<lambda>p. id' p = i) all))"

definition matches :: "string \<Rightarrow> Paper \<Rightarrow> bool" where
  "matches q p =
     (includes' (toLowerCase (title p)) q \<or>
      includes' (toLowerCase (abstract p)) q \<or>
      includes' (toLowerCase (summary p)) q \<or>
      list_ex (\<lambda>a. includes' (toLowerCase a) q) (authors p) \<or>
      list_ex (\<lambda>t. includes' (toLowerCase t) q) (tags p))"

definition searchPapers :: "parser \<Rightarrow> fs \<Rightarrow> string \<Rightarrow> error + Paper list" where
  "searchPapers parse s query =
     (case getAllPapers parse s of
        Inl e \<Rightarrow> Inl e
      | Inr all \<Rightarrow> (let q = toLowerCase query in Inr (filter (matches q) all)))"

definition saveDailyPapers :: "printer \<Rightarrow> fs \<Rightarrow> DailyPapers \<Rightarrow> fs" where
  "saveDailyPapers stringify s daily =
     (let s' = ensureContentDir s; filePath = date daily @ ''.json''
      in writeFileSync s' filePath (stringify daily))"

section \<open>Numbers and arrays of the runtime\<close>

text \<open>
  A JavaScript number as the adapters meet it: an integer or \<^verbatim>\<open>NaN\<close>. (\<^verbatim>\<open>-0\<close> is \<open>Num 0\<close>;
  both are falsy. Integers are unbounded here; the rounding of a double beyond \<open>2^53\<close>
  changes neither its truthiness nor where \<^verbatim>\<open>slice\<close> cuts an array.)
\<close>

datatype jsnum = NaN | Num int

definition isWhiteSpace :: "char \<Rightarrow> bool" where
  "isWhiteSpace c = (c \<in> {CHR 0x20, CHR 0x09, CHR 0x0A, CHR 0x0B, CHR 0x0C, CHR 0x0D})"

definition isDigit :: "char \<Rightarrow> bool" where
  "isDigit c = (CHR ''0'' \<le> c \<and> c \<le> CHR ''9'')"

definition digitsValue :: "string \<Rightarrow> int" where
  "digitsValue z = foldl (\<lambda>acc c. 10 * acc + (of_char c - 48)) 0 z"

text \<open>
  \<^verbatim>\<open>parseInt(s, 10)\<close>: leading white space is skipped, one sign is read, then the longest
  run of decimal digits; no digit gives \<^verbatim>\<open>NaN\<close>, and what follows the digits is ignored.
\<close>

definition parseInt :: "string \<Rightarrow> jsnum" where
  "parseInt s =
     (let t = dropWhile isWhiteSpace s;
          neg = (t \<noteq> [] \<and> hd t = CHR ''-'');
          u = (if t \<noteq> [] \<and> (hd t = CHR ''+'' \<or> hd t = CHR ''-'') then tl t else t);
          z = takeWhile isDigit u
      in if z = [] then NaN else Num ((if neg then - 1 else 1) * digitsValue z))"

text \<open>
  \<^verbatim>\<open>xs.slice(start, end)\<close>: a negative index counts from the end of the array, and both
  indices are clamped to the array.
\<close>

definition slice :: "'a list \<Rightarrow> int \<Rightarrow> int \<Rightarrow> 'a list" where
  "slice xs start end' =
     (let len = int (length xs);
          k = (if start < 0 then max (len + start) 0 else min start len);
          final = (if end' < 0 then max (len + end') 0 else min end' len)
      in take (nat (final - k)) (drop (nat k) xs))"

text \<open>
  The truthiness tests of the adapters: a string is truthy unless it is \<^verbatim>\<open>null\<close> or empty,
  a number unless it is \<^verbatim>\<open>undefined\<close>, \<^verbatim>\<open>NaN\<close> or zero. Each function returns the truthy
  value, or \<open>None\<close>.
\<close>

definition truthyString :: "string option \<Rightarrow> string option" where
  "truthyString v = (case v of None \<Rightarrow> None | Some x \<Rightarrow> if x = [] then None else Some x)"

definition truthyNumber :: "jsnum option \<Rightarrow> int option" where
  "truthyNumber v =
     (case v of None \<Rightarrow> None | Some NaN \<Rightarrow> None
      | Some (Num n) \<Rightarrow> if n = 0 then None else Some n)"

section \<open>The REST adapter: \<^verbatim>\<open>GET /api/papers\<close>\<close>

text \<open>
  The query parameters as \<^verbatim>\<open>searchParams.get\<close> returns them (\<open>None\<close> is \<^verbatim>\<open>null\<close>), and the
  response: its status and the JSON body.
\<close>

record searchParams =
  param_date :: "string option"
  param_q :: "string option"
  param_limit :: "string option"

datatype papers_body =
    SearchBody "Paper list" nat
  | DailyBody DailyPapers
  | LatestBody "DailyPapers option" "string list"
  | ErrorBody string

record 'b response =
  status :: nat
  body :: 'b

definition internalError :: "papers_body response" where
  "internalError = \<lparr>status = 500, body = ErrorBody ''Internal server error''\<rparr>"

definition papers_GET :: "parser \<Rightarrow> fs \<Rightarrow> searchParams \<Rightarrow> papers_body response" where
  "papers_GET parse s params =
     (let d = param_date params;
          query = param_q params;
          limitParam = param_limit params;
          limit = (case truthyString limitParam of
                     Some l \<Rightarrow> Some (parseInt l) | None \<Rightarrow> None)
      in case truthyString query of
           Some qu \<Rightarrow>
             (case searchPapers parse s qu of
                Inl err \<Rightarrow> internalError
              | Inr results \<Rightarrow>
                  (let results' = (case truthyNumber limit of
                                     Some n \<Rightarrow> slice results 0 n | None \<Rightarrow> results)
                   in \<lparr>status = 200, body = SearchBody results' (length results')\<rparr>))
         | None \<Rightarrow>
             (case truthyString d of
                Some dt \<Rightarrow>
                  (case getPapersForDate parse s dt of
                     Inl err \<Rightarrow> internalError
                   | Inr None \<Rightarrow>
                       \<lparr>status = 404, body = ErrorBody (''No papers found for date '' @ dt)\<rparr>
                   | Inr (Some daily) \<Rightarrow> \<lparr>status = 200, body = DailyBody daily\<rparr>)
              | None \<Rightarrow>
                  (case getLatestPapers parse s of
                     Inl err \<Rightarrow> internalError
                   | Inr latest \<Rightarrow>
                       \<lparr>status = 200, body = LatestBody latest (getAllDates s)\<rparr>)))"

section \<open>The tool-call adapter: \<^verbatim>\<open>POST /api/mcp\<close>\<close>

text \<open>
  The arguments of a tool call, each present or \<^verbatim>\<open>undefined\<close> (\<open>None\<close>), with the types of
  the tools' input schemas; \<^verbatim>\<open>limit\<close> is an integer.
\<close>

record tool_args =
  arg_limit :: "int option"
  arg_date :: "string option"
  arg_id :: "string option"
  arg_query :: "string option"

definition noArgs :: tool_args where
  "noArgs = \<lparr>arg_limit = None, arg_date = None, arg_id = None, arg_query = None\<rparr>"

text \<open>
  The text of a content item is a message, or \<^verbatim>\<open>JSON.stringify(v, null, 2)\<close> of one of the
  objects the tools build, kept as the object: \<open>Json v\<close>. \<open>isError\<close> is \<open>False\<close> where the
  result has no \<^verbatim>\<open>isError\<close> field.
\<close>

datatype payload =
    LatestPayload string "Paper list" nat
  | DatePayload "string option" "Paper list"
  | PaperPayload Paper
  | SearchPayload string "Paper list" nat
  | DatesPayload "string list"

datatype tool_text = Text string | Json payload

record MCPToolResult =
  content :: "tool_text list"
  isError :: bool

text \<open>\<^verbatim>\<open>String(err)\<close> and a value inside a template literal.\<close>

definition String :: "error \<Rightarrow> string" where
  "String err =
     (case err of
        SyntaxError m \<Rightarrow> ''SyntaxError: '' @ m
      | TypeError m \<Rightarrow> ''TypeError: '' @ m
      | SystemError m \<Rightarrow> ''Error: '' @ m)"

definition template :: "string option \<Rightarrow> string" where
  "template v = (case v of None \<Rightarrow> ''undefined'' | Some x \<Rightarrow> x)"

definition quote :: string where
  "quote = [CHR 0x22]"

text \<open>
  The body of the \<^verbatim>\<open>try\<close> block of \<^verbatim>\<open>executeTool\<close>: \<open>Inl\<close> is an exception leaving it.
  A missing \<^verbatim>\<open>date\<close> reaches the file name as \<^verbatim>\<open>undefined\<close>; a missing \<^verbatim>\<open>id\<close> equals no
  paper's id; a missing \<^verbatim>\<open>query\<close> makes \<^verbatim>\<open>query.toLowerCase()\<close> throw after the papers were read.
\<close>

definition executeTool_try :: "parser \<Rightarrow> fs \<Rightarrow> string \<Rightarrow> tool_args \<Rightarrow> error + MCPToolResult" where
  "executeTool_try parse s name args =
     (if name = ''get_latest_papers'' then
        (let limit = (case arg_limit args of None \<Rightarrow> 10 | Some n \<Rightarrow> n)
         in case getLatestPapers parse s of
              Inl err \<Rightarrow> Inl err
            | Inr None \<Rightarrow> Inr \<lparr>content = [Text ''No papers available yet.''], isError = False\<rparr>
            | Inr (Some daily) \<Rightarrow>
                (let ps = slice (papers daily) 0 limit
                 in Inr \<lparr>content = [Json (LatestPayload (date daily) ps (length (papers daily)))],
                         isError = False\<rparr>))
      else if name = ''get_papers_by_date'' then
        (let d = arg_date args; limit = arg_limit args
         in case getPapersForDate parse s (template d) of
              Inl err \<Rightarrow> Inl err
            | Inr None \<Rightarrow>
                Inr \<lparr>content = [Text (''No papers found for date '' @ template d)],
                     isError = True\<rparr>
            | Inr (Some daily) \<Rightarrow>
                (let ps = (case truthyNumber (map_option Num limit) of
                             Some n \<Rightarrow> slice (papers daily) 0 n | None \<Rightarrow> papers daily)
                 in Inr \<lparr>content = [Json (DatePayload d ps)], isError = False\<rparr>))
      else if name = ''get_paper_by_id'' then
        (let i = arg_id args
         in case (case i of
                    Some i' \<Rightarrow> getPaperById parse s i'
                  | None \<Rightarrow> (case getAllPapers parse s of
                               Inl err \<Rightarrow> Inl err | Inr all \<Rightarrow> Inr None)) of
              Inl err \<Rightarrow> Inl err
            | Inr None \<Rightarrow>
                Inr \<lparr>content = [Text (''Paper '' @ quote @ template i @ quote @ '' not found'')],
                     isError = True\<rparr>
            | Inr (Some paper) \<Rightarrow> Inr \<lparr>content = [Json (PaperPayload paper)], isError = False\<rparr>)
      else if name = ''search_papers'' then
        (let query = arg_query args;
             limit = (case arg_limit args of None \<Rightarrow> 10 | Some n \<Rightarrow> n)
         in case (case query of
                    Some qu \<Rightarrow> map_sum (\<lambda>err. err) (\<lambda>rs. (qu, rs)) (searchPapers parse s qu)
                  | None \<Rightarrow>
                      (case getAllPapers parse s of
                         Inl err \<Rightarrow> Inl err
                       | Inr all \<Rightarrow>
                           Inl (TypeError
                             ''Cannot read properties of undefined (reading 'toLowerCase')''))) of
              Inl err \<Rightarrow> Inl err
            | Inr (qu, results) \<Rightarrow>
                (let results' = slice results 0 limit
                 in Inr \<lparr>content = [Json (SearchPayload qu results' (length results'))],
                         isError = False\<rparr>))
      else if name = ''list_dates'' then
        Inr \<lparr>content = [Json (DatesPayload (getAllDates s))], isError = False\<rparr>
      else
        Inr \<lparr>content = [Text (''Unknown tool: '' @ name)], isError = True\<rparr>)"

definition executeTool :: "parser \<Rightarrow> fs \<Rightarrow> string \<Rightarrow> tool_args \<Rightarrow> MCPToolResult" where
  "executeTool parse s name args =
     (case executeTool_try parse s name args of
        Inr result \<Rightarrow> result
      | Inl err \<Rightarrow>
          \<lparr>content = [Text (''Error executing tool '' @ quote @ name @ quote @ '': '' @ String err)],
           isError = True\<rparr>)"

text \<open>
  The request body as \<^verbatim>\<open>request.json()\<close> yields it: an exception, or an object whose
  \<^verbatim>\<open>name\<close> and \<^verbatim>\<open>arguments\<close> are present or not.
\<close>

record mcp_request =
  req_name :: "string option"
  req_arguments :: "tool_args option"

datatype mcp_body = McpError string | McpResult MCPToolResult

definition mcp_POST :: "parser \<Rightarrow> fs \<Rightarrow> error + mcp_request \<Rightarrow> mcp_body response" where
  "mcp_POST parse s request_json =
     (case request_json of
        Inl err \<Rightarrow> \<lparr>status = 500, body = McpError ''Internal server error''\<rparr>
      | Inr b \<Rightarrow>
          (case truthyString (req_name b) of
             None \<Rightarrow> \<lparr>status = 400, body = McpError ''Missing required field: name''\<rparr>
           | Some name \<Rightarrow>
               \<lparr>status = 200,
                body = McpResult
                  (executeTool parse s name
                     (case req_arguments b of None \<Rightarrow> noArgs | Some a \<Rightarrow> a))\<rparr>))"

section \<open>The properties, in the words of the specification\<close>

text \<open>
  The match of \<^verbatim>\<open>search\<close> as the specification words it: the lowercased query is a
  substring (\<open>sublist\<close>) of the lowercased title, abstract or summary, or of the lowercase
  of some author or of some tag.
\<close>

definition spec_matches :: "string \<Rightarrow> Paper \<Rightarrow> bool" where
  "spec_matches query p =
     (let q = toLowerCase query
      in sublist q (toLowerCase (title p)) \<or>
         sublist q (toLowerCase (abstract p)) \<or>
         sublist q (toLowerCase (summary p)) \<or>
         (\<exists>a \<in> set (authors p). sublist q (toLowerCase a)) \<or>
         (\<exists>t \<in> set (tags p). sublist q (toLowerCase t)))"

text \<open>
  The papers sequence of a date's document; empty when the date has no document (and when
  reading it fails).
\<close>

definition documentPapers :: "parser \<Rightarrow> fs \<Rightarrow> string \<Rightarrow> Paper list" where
  "documentPapers parse s d =
     (case getPapersForDate parse s d of Inr (Some daily) \<Rightarrow> papers daily | _ \<Rightarrow> [])"

text \<open>
  Modelled from the spec: the form \<^verbatim>\<open>YYYY-MM-DD\<close> of a date, which no source file checks:
  four digits, two digits and two digits, separated by hyphens.
\<close>

fun isDate :: "string \<Rightarrow> bool" where
  "isDate [y1, y2, y3, y4, h1, m1, m2, h2, d1, d2] =
     (isDigit y1 \<and> isDigit y2 \<and> isDigit y3 \<and> isDigit y4 \<and> h1 = CHR ''-'' \<and>
      isDigit m1 \<and> isDigit m2 \<and> h2 = CHR ''-'' \<and> isDigit d1 \<and> isDigit d2)"
| "isDate _ = False"

text \<open>The names of the tool catalog \<^verbatim>\<open>TOOLS\<close>, in its order.\<close>

definition TOOLS :: "string list" where
  "TOOLS = [''get_latest_papers'', ''get_papers_by_date'', ''get_paper_by_id'',
            ''search_papers'', ''list_dates'']"

section \<open>Example data\<close>

text \<open>
  The fixtures of the repository's tests (\<open>mockPaper1\<close> to \<open>mockPaper3\<close>, \<open>daily1\<close>,
  \<open>daily2\<close>), an older document whose paper reuses the id of \<open>mockPaper3\<close>, and a document
  without papers; then the JSON texts of the four documents, the first three as
  \<^verbatim>\<open>JSON.stringify(d)\<close> prints them and the last as \<^verbatim>\<open>JSON.stringify(d, null, 2)\<close> does.
\<close>

definition mockPaper1 :: Paper where
  "mockPaper1 =
     \<lparr>id' = ''2502.00001'',
      title = ''Attention Is All You Need'',
      authors = [''Alice Smith'', ''Bob Jones'', ''Carol White''],
      abstract = ''We propose the Transformer model based solely on attention mechanisms.'',
      summary = ''A groundbreaking paper introducing the Transformer architecture.'',
      url = ''https://huggingface.co/papers/2502.00001'',
      pdfUrl = Some ''https://arxiv.org/pdf/2502.00001'',
      thumbnailUrl = None,
      upvotes = 150,
      publishedAt = ''2025-02-01T00:00:00.000Z'',
      fetchedAt = ''2025-02-01T12:00:00.000Z'',
      tags = [''NLP'', ''Transformers''],
      arxivId = Some ''2502.00001''\<rparr>"

definition mockPaper2 :: Paper where
  "mockPaper2 =
     \<lparr>id' = ''2502.00002'',
      title = ''BERT: Pre-training Deep Bidirectional Transformers'',
      authors = [''Dave Brown''],
      abstract = ''We introduce BERT, a new language representation model.'',
      summary = ''BERT achieves state-of-the-art on many NLP tasks.'',
      url = ''https://huggingface.co/papers/2502.00002'',
      pdfUrl = Some ''https://arxiv.org/pdf/2502.00002'',
      thumbnailUrl = None,
      upvotes = 200,
      publishedAt = ''2025-02-02T00:00:00.000Z'',
      fetchedAt = ''2025-02-02T12:00:00.000Z'',
      tags = [''NLP'', ''BERT''],
      arxivId = Some ''2502.00002''\<rparr>"

definition mockPaper3 :: Paper where
  "mockPaper3 =
     \<lparr>id' = ''2503.00003'',
      title = ''GPT-4 Technical Report'',
      authors = [''OpenAI Team''],
      abstract = ''GPT-4 is a large multimodal model.'',
      summary = ''GPT-4 shows remarkable capabilities across many tasks.'',
      url = ''https://huggingface.co/papers/2503.00003'',
      pdfUrl = None,
      thumbnailUrl = None,
      upvotes = 500,
      publishedAt = ''2025-03-01T00:00:00.000Z'',
      fetchedAt = ''2025-03-01T12:00:00.000Z'',
      tags = [''LLM'', ''GPT''],
      arxivId = Some ''2503.00003''\<rparr>"

definition earlierPaper3 :: Paper where
  "earlierPaper3 =
     \<lparr>id' = ''2503.00003'',
      title = ''GPT-4 Preview'',
      authors = [''OpenAI Team''],
      abstract = ''An early note.'',
      summary = '''',
      url = ''https://huggingface.co/papers/2503.00003'',
      pdfUrl = None,
      thumbnailUrl = None,
      upvotes = 3,
      publishedAt = ''2025-01-10T00:00:00.000Z'',
      fetchedAt = ''2025-01-10T12:00:00.000Z'',
      tags = [],
      arxivId = None\<rparr>"

definition daily1 :: DailyPapers where
  "daily1 =
     \<lparr>date = ''2025-02-01'',
      papers = [mockPaper1, mockPaper2],
      generatedAt = ''2025-02-01T12:00:00.000Z''\<rparr>"

definition daily2 :: DailyPapers where
  "daily2 =
     \<lparr>date = ''2025-03-01'',
      papers = [mockPaper3],
      generatedAt = ''2025-03-01T12:00:00.000Z''\<rparr>"

definition daily3 :: DailyPapers where
  "daily3 =
     \<lparr>date = ''2025-01-10'',
      papers = [earlierPaper3],
      generatedAt = ''2025-01-10T12:00:00.000Z''\<rparr>"

definition daily4 :: DailyPapers where
  "daily4 =
     \<lparr>date = ''2025-01-15'',
      papers = [],
      generatedAt = ''2025-01-15T12:00:00.000Z''\<rparr>"

definition raw_daily1 :: string where
  \<open>raw_daily1 =
     ''{"date":"2025-02-01","papers":[{"id":"2502.00001","title":"Attention Is All You Need","a'' @
     ''uthors":["Alice Smith","Bob Jones","Carol White"],"abstract":"We propose the Transformer'' @
     '' model based solely on attention mechanisms.","summary":"A groundbreaking paper introduc'' @
     ''ing the Transformer architecture.","url":"https://huggingface.co/papers/2502.00001","pdf'' @
     ''Url":"https://arxiv.org/pdf/2502.00001","upvotes":150,"publishedAt":"2025-02-01T00:00:00'' @
     ''.000Z","fetchedAt":"2025-02-01T12:00:00.000Z","tags":["NLP","Transformers"],"arxivId":"2'' @
     ''502.00001"},{"id":"2502.00002","title":"BERT: Pre-training Deep Bidirectional Transforme'' @
     ''rs","authors":["Dave Brown"],"abstract":"We introduce BERT, a new language representatio'' @
     ''n model.","summary":"BERT achieves state-of-the-art on many NLP tasks.","url":"https://h'' @
     ''uggingface.co/papers/2502.00002","pdfUrl":"https://arxiv.org/pdf/2502.00002","upvotes":2'' @
     ''00,"publishedAt":"2025-02-02T00:00:00.000Z","fetchedAt":"2025-02-02T12:00:00.000Z","tags'' @
     ''":["NLP","BERT"],"arxivId":"2502.00002"}],"generatedAt":"2025-02-01T12:00:00.000Z"}''\<close>

definition raw_daily2 :: string where
  \<open>raw_daily2 =
     ''{"date":"2025-03-01","papers":[{"id":"2503.00003","title":"GPT-4 Technical Report","auth'' @
     ''ors":["OpenAI Team"],"abstract":"GPT-4 is a large multimodal model.","summary":"GPT-4 sh'' @
     ''ows remarkable capabilities across many tasks.","url":"https://huggingface.co/papers/250'' @
     ''3.00003","upvotes":500,"publishedAt":"2025-03-01T00:00:00.000Z","fetchedAt":"2025-03-01T'' @
     ''12:00:00.000Z","tags":["LLM","GPT"],"arxivId":"2503.00003"}],"generatedAt":"2025-03-01T1'' @
     ''2:00:00.000Z"}''\<close>

definition raw_daily3 :: string where
  \<open>raw_daily3 =
     ''{"date":"2025-01-10","papers":[{"id":"2503.00003","title":"GPT-4 Preview","authors":["Op'' @
     ''enAI Team"],"abstract":"An early note.","summary":"","url":"https://huggingface.co/paper'' @
     ''s/2503.00003","upvotes":3,"publishedAt":"2025-01-10T00:00:00.000Z","fetchedAt":"2025-01-'' @
     ''10T12:00:00.000Z","tags":[]}],"generatedAt":"2025-01-10T12:00:00.000Z"}''\<close>

definition raw_daily4 :: string where
  \<open>raw_daily4 =
     ''{\<newline>'' @
     ''  "date": "2025-01-15",\<newline>'' @
     ''  "papers": [],\<newline>'' @
     ''  "generatedAt": "2025-01-15T12:00:00.000Z"\<newline>'' @
     ''}''\<close>

text \<open>
  \<^verbatim>\<open>JSON.parse\<close> on the texts of the examples: every text outside the table counts as
  malformed, which the one such text that the examples parse, \<^verbatim>\<open>{broken\<close>, is. And
  \<^verbatim>\<open>JSON.stringify(d, null, 2)\<close> at \<open>daily4\<close>, the one document that the examples save; its
  value at another document is not used.
\<close>

definition table_parse :: parser where
  "table_parse raw =
     (if raw = ''null'' then Inr None
      else if raw = raw_daily1 then Inr (Some daily1)
      else if raw = raw_daily2 then Inr (Some daily2)
      else if raw = raw_daily3 then Inr (Some daily3)
      else if raw = raw_daily4 then Inr (Some daily4)
      else Inl (SyntaxError ''Unexpected token in JSON''))"

definition table_stringify :: printer where
  "table_stringify d = (if d = daily4 then raw_daily4 else [])"

text \<open>
  Stores: one with three documents, a file holding the text \<^verbatim>\<open>null\<close> and a file that is no
  JSON file; one whose only document is malformed; one with two files whose names hold
  \<^verbatim>\<open>.json\<close> twice; one with a JSON file that is not named after a date.
\<close>

definition fs_example :: fs where
  "fs_example =
     Some [(''2025-02-01.json'', raw_daily1), (''2025-03-01.json'', raw_daily2),
           (''2025-01-10.json'', raw_daily3), (''2025-01-15.json'', ''null''),
           (''README.md'', ''# papers'')]"

definition fs_malformed :: fs where
  "fs_malformed = Some [(''2025-02-01.json'', ''{broken'')]"

definition fs_twice :: fs where
  "fs_twice = Some [(''.jsona.json'', ''null''), (''a.json.json'', ''null'')]"

definition fs_index :: fs where
  "fs_index = Some [(''2025-01-15.json'', ''null''), (''index.json'', ''null'')]"

section \<open>The state seen by the read operations\<close>

text \<open>
  \<open>ensureContentDir\<close> creates a missing directory empty and changes nothing else, so a read
  operation gives the same result before and after it.
\<close>

lemma entries_ensureContentDir: "entries (ensureContentDir s) = entries s"
  by (cases s) (simp_all add: ensureContentDir_def dirExists_def mkdirSync_def entries_def)

lemma ensureContentDir_idem: "ensureContentDir (ensureContentDir s) = ensureContentDir s"
  by (cases s) (simp_all add: ensureContentDir_def dirExists_def mkdirSync_def)

lemma readdirSync_ensureContentDir: "readdirSync (ensureContentDir s) = readdirSync s"
  by (simp add: readdirSync_def entries_ensureContentDir)

lemma existsSync_ensureContentDir: "existsSync (ensureContentDir s) name = existsSync s name"
  by (simp add: existsSync_def entries_ensureContentDir)

lemma readFileSync_ensureContentDir: "readFileSync (ensureContentDir s) name = readFileSync s name"
  by (simp add: readFileSync_def entries_ensureContentDir)

lemma getAllDates_ensureContentDir: "getAllDates (ensureContentDir s) = getAllDates s"
  by (simp add: getAllDates_def ensureContentDir_idem)

lemma getPapersForDate_ensureContentDir:
  "getPapersForDate parse (ensureContentDir s) d = getPapersForDate parse s d"
  by (simp add: getPapersForDate_def ensureContentDir_idem)

lemma existsSync_readFileSync:
  "existsSync s name \<longleftrightarrow> (\<exists>raw. readFileSync s name = Inr raw)"
  by (auto simp: existsSync_def readFileSync_def split: option.splits)

section \<open>Evaluation of the examples\<close>

lemma dates_fs_example:
  "getAllDates fs_example = [''2025-03-01'', ''2025-02-01'', ''2025-01-15'', ''2025-01-10'']"
  by code_simp

lemma all_fs_example:
  "getAllPapers table_parse fs_example = Inr [mockPaper3, mockPaper1, mockPaper2, earlierPaper3]"
  by code_simp

section \<open>Search\<close>

lemma includes_sublist: "includes' s q \<longleftrightarrow> sublist q s"
  by (induction s) (auto simp: sublist_Cons_right)

lemma matches_spec_matches: "matches (toLowerCase query) p = spec_matches query p"
  by (simp add: matches_def spec_matches_def Let_def includes_sublist list_ex_iff)

lemma spec_matches_empty: "spec_matches [] p"
  by (simp add: spec_matches_def toLowerCase_def)

text \<open>
  C1. \<open>searchPapers\<close> returns the papers of \<open>getAllPapers\<close> that match in the words of the
  specification, in the order of \<open>getAllPapers\<close>, and fails as \<open>getAllPapers\<close> does; the
  empty query returns what \<open>getAllPapers\<close> returns.
\<close>

theorem searchPapers_spec:
  "searchPapers parse s query =
     (case getAllPapers parse s of
        Inl e \<Rightarrow> Inl e
      | Inr all \<Rightarrow> Inr (filter (spec_matches query) all))
   \<and> searchPapers parse s [] = getAllPapers parse s
   \<and> (\<forall>all. getAllPapers parse s = Inr all \<longrightarrow>
         (\<exists>rs. searchPapers parse s query = Inr rs \<and> subseq rs all
              \<and> set rs = {p \<in> set all. spec_matches query p}))"
proof -
  have eq: "matches (toLowerCase qu) = spec_matches qu" for qu
    by (rule ext) (rule matches_spec_matches)
  have A: "searchPapers parse s qu =
     (case getAllPapers parse s of
        Inl e \<Rightarrow> Inl e
      | Inr all \<Rightarrow> Inr (filter (spec_matches qu) all))" for qu
    by (simp add: searchPapers_def eq split: sum.splits)
  have B: "searchPapers parse s [] = getAllPapers parse s"
    by (simp add: A spec_matches_empty split: sum.splits)
  have C: "\<exists>rs. searchPapers parse s query = Inr rs \<and> subseq rs all
              \<and> set rs = {p \<in> set all. spec_matches query p}"
    if "getAllPapers parse s = Inr all" for all
    using that by (simp add: A)
  from A B C show ?thesis by blast
qed

theorem searchPapers_spec_witness:
  "getAllPapers table_parse fs_example = Inr [mockPaper3, mockPaper1, mockPaper2, earlierPaper3]
   \<and> searchPapers table_parse fs_example ''NLP'' = Inr [mockPaper1, mockPaper2]
   \<and> subseq [mockPaper1, mockPaper2] [mockPaper3, mockPaper1, mockPaper2, earlierPaper3]
   \<and> searchPapers table_parse fs_example [] = getAllPapers table_parse fs_example"
proof -
  let ?all = "[mockPaper3, mockPaper1, mockPaper2, earlierPaper3]"
  have f: "filter (spec_matches ''NLP'') ?all = [mockPaper1, mockPaper2]"
    by code_simp
  note th = searchPapers_spec [of table_parse fs_example "''NLP''"]
  from th have "searchPapers table_parse fs_example ''NLP'' =
     (case getAllPapers table_parse fs_example of
        Inl e \<Rightarrow> Inl e
      | Inr all \<Rightarrow> Inr (filter (spec_matches ''NLP'') all))"
    by (rule conjunct1)
  then have a: "searchPapers table_parse fs_example ''NLP'' = Inr [mockPaper1, mockPaper2]"
    by (simp only: all_fs_example sum.case f)
  from th all_fs_example obtain rs
    where "searchPapers table_parse fs_example ''NLP'' = Inr rs" and "subseq rs ?all"
    by blast
  with a have b: "subseq [mockPaper1, mockPaper2] ?all"
    by simp
  from th have c: "searchPapers table_parse fs_example [] = getAllPapers table_parse fs_example"
    by blast
  from a b c all_fs_example show ?thesis
    by blast
qed

section \<open>All papers\<close>

lemma getAllPapers_loop_ok:
  "\<forall>d \<in> set ds. \<forall>e. getPapersForDate parse s d \<noteq> Inl e \<Longrightarrow>
   getAllPapers_loop parse s ds all = Inr (all @ concat (map (documentPapers parse s) ds))"
proof (induction ds arbitrary: all)
  case Nil
  then show ?case by simp
next
  case (Cons d ds)
  then show ?case
    by (auto simp: documentPapers_def split: sum.splits option.splits)
qed

lemma getAllPapers_loop_error:
  "\<exists>d \<in> set ds. \<exists>e. getPapersForDate parse s d = Inl e \<Longrightarrow>
   \<exists>e. getAllPapers_loop parse s ds all = Inl e"
proof (induction ds arbitrary: all)
  case Nil
  then show ?case by simp
next
  case (Cons d ds)
  then show ?case
    by (cases "getPapersForDate parse s d") auto
qed

text \<open>
  C3. When every date of \<open>getAllDates\<close> is read without an error, \<open>getAllPapers\<close> returns
  the concatenation, over the dates of \<open>getAllDates\<close> in their order, of the papers of each
  date's document, a date without a document contributing nothing; its length is the sum of
  the lengths. When reading some date fails, \<open>getAllPapers\<close> fails.
\<close>

theorem getAllPapers_concat:
  "((\<forall>d \<in> set (getAllDates s). \<forall>e. getPapersForDate parse s d \<noteq> Inl e) \<longrightarrow>
      getAllPapers parse s = Inr (concat (map (documentPapers parse s) (getAllDates s))) \<and>
      (\<exists>all. getAllPapers parse s = Inr all \<and>
         length all = sum_list (map (\<lambda>d. length (documentPapers parse s d)) (getAllDates s))))
   \<and> ((\<exists>d \<in> set (getAllDates s). \<exists>e. getPapersForDate parse s d = Inl e) \<longrightarrow>
      (\<exists>e. getAllPapers parse s = Inl e))"
proof (intro conjI impI)
  assume ok: "\<forall>d \<in> set (getAllDates s). \<forall>e. getPapersForDate parse s d \<noteq> Inl e"
  show eq: "getAllPapers parse s = Inr (concat (map (documentPapers parse s) (getAllDates s)))"
    using getAllPapers_loop_ok [OF ok, of "[]"] by (simp add: getAllPapers_def)
  show "\<exists>all. getAllPapers parse s = Inr all \<and>
         length all = sum_list (map (\<lambda>d. length (documentPapers parse s d)) (getAllDates s))"
    by (simp add: eq length_concat comp_def)
next
  assume "\<exists>d \<in> set (getAllDates s). \<exists>e. getPapersForDate parse s d = Inl e"
  then show "\<exists>e. getAllPapers parse s = Inl e"
    unfolding getAllPapers_def by (rule getAllPapers_loop_error)
qed

lemma documents_fs_example:
  "getPapersForDate table_parse fs_example ''2025-03-01'' = Inr (Some daily2)"
  "getPapersForDate table_parse fs_example ''2025-02-01'' = Inr (Some daily1)"
  "getPapersForDate table_parse fs_example ''2025-01-15'' = Inr None"
  "getPapersForDate table_parse fs_example ''2025-01-10'' = Inr (Some daily3)"
  by code_simp+

theorem getAllPapers_concat_witness:
  "getAllDates fs_example = [''2025-03-01'', ''2025-02-01'', ''2025-01-15'', ''2025-01-10'']
   \<and> getPapersForDate table_parse fs_example ''2025-03-01'' = Inr (Some daily2)
   \<and> getPapersForDate table_parse fs_example ''2025-02-01'' = Inr (Some daily1)
   \<and> getPapersForDate table_parse fs_example ''2025-01-15'' = Inr None
   \<and> getPapersForDate table_parse fs_example ''2025-01-10'' = Inr (Some daily3)
   \<and> getAllPapers table_parse fs_example =
       Inr (papers daily2 @ papers daily1 @ [] @ papers daily3)
   \<and> getAllDates fs_malformed = [''2025-02-01'']
   \<and> getPapersForDate table_parse fs_malformed ''2025-02-01'' =
       Inl (SyntaxError ''Unexpected token in JSON'')
   \<and> (\<exists>e. getAllPapers table_parse fs_malformed = Inl e)"
proof -
  have ok: "\<forall>d \<in> set (getAllDates fs_example). \<forall>e. getPapersForDate table_parse fs_example d \<noteq> Inl e"
    by (simp add: dates_fs_example documents_fs_example)
  have bad: "getPapersForDate table_parse fs_malformed ''2025-02-01'' = Inl (SyntaxError ''Unexpected token in JSON'')"
    by code_simp
  have listed: "getAllDates fs_malformed = [''2025-02-01'']"
    by code_simp
  have ex: "\<exists>d \<in> set (getAllDates fs_malformed). \<exists>e. getPapersForDate table_parse fs_malformed d = Inl e"
    by (simp add: listed bad)
  from getAllPapers_concat [of fs_example table_parse] ok
  have "getAllPapers table_parse fs_example =
          Inr (concat (map (documentPapers table_parse fs_example) (getAllDates fs_example)))"
    by blast
  then have one: "getAllPapers table_parse fs_example =
       Inr (papers daily2 @ papers daily1 @ [] @ papers daily3)"
    by (simp add: dates_fs_example documentPapers_def documents_fs_example)
  from getAllPapers_concat [of fs_malformed table_parse] ex
  have two: "\<exists>e. getAllPapers table_parse fs_malformed = Inl e"
    by blast
  from one two bad listed show ?thesis
    by (simp add: dates_fs_example documents_fs_example)
qed

section \<open>Lookup by id\<close>

text \<open>
  C4. When \<open>getAllPapers\<close> returns, \<open>getPaperById\<close> returns the paper at the first position
  of that sequence whose id is the argument, and nothing when no paper has that id; so of
  two papers with one id the one of the more recent date is returned. When \<open>getAllPapers\<close>
  fails, \<open>getPaperById\<close> fails with the same error.
\<close>

theorem getPaperById_first:
  "(\<forall>all. getAllPapers parse s = Inr all \<longrightarrow>
      (\<exists>r. getPaperById parse s i = Inr r) \<and>
      (\<forall>p. getPaperById parse s i = Inr (Some p) \<longleftrightarrow>
           (\<exists>k < length all. all ! k = p \<and> id' p = i \<and> (\<forall>j < k. id' (all ! j) \<noteq> i))) \<and>
      (getPaperById parse s i = Inr None \<longleftrightarrow> (\<forall>p \<in> set all. id' p \<noteq> i)))
   \<and> (\<forall>e. getAllPapers parse s = Inl e \<longrightarrow> getPaperById parse s i = Inl e)"
  by (auto simp: getPaperById_def find_Some_iff find_None_iff)

theorem getPaperById_first_witness:
  "getAllPapers table_parse fs_example = Inr [mockPaper3, mockPaper1, mockPaper2, earlierPaper3]
   \<and> id' mockPaper3 = ''2503.00003'' \<and> id' earlierPaper3 = ''2503.00003''
   \<and> getPaperById table_parse fs_example ''2503.00003'' = Inr (Some mockPaper3)
   \<and> getPaperById table_parse fs_example ''9999.99999'' = Inr None
   \<and> getAllPapers table_parse fs_malformed = Inl (SyntaxError ''Unexpected token in JSON'')
   \<and> getPaperById table_parse fs_malformed ''2503.00003'' = Inl (SyntaxError ''Unexpected token in JSON'')"
proof -
  let ?all = "[mockPaper3, mockPaper1, mockPaper2, earlierPaper3]"
  have ids: "id' mockPaper3 = ''2503.00003''" "id' earlierPaper3 = ''2503.00003''"
    "id' mockPaper1 = ''2502.00001''" "id' mockPaper2 = ''2502.00002''"
    by (simp_all add: mockPaper1_def mockPaper2_def mockPaper3_def earlierPaper3_def)
  have first: "\<exists>k < length ?all. ?all ! k = mockPaper3 \<and> id' mockPaper3 = ''2503.00003''
                 \<and> (\<forall>j < k. id' (?all ! j) \<noteq> ''2503.00003'')"
    by (rule exI [of _ 0]) (simp add: ids)
  from getPaperById_first [of table_parse fs_example "''2503.00003''"] first
  have one: "getPaperById table_parse fs_example ''2503.00003'' = Inr (Some mockPaper3)"
    by (simp add: all_fs_example)
  have none: "\<forall>p \<in> set ?all. id' p \<noteq> ''9999.99999''"
    by (simp add: ids)
  from getPaperById_first [of table_parse fs_example "''9999.99999''"] none
  have two: "getPaperById table_parse fs_example ''9999.99999'' = Inr None"
    by (simp add: all_fs_example)
  have bad: "getAllPapers table_parse fs_malformed = Inl (SyntaxError ''Unexpected token in JSON'')"
    by code_simp
  from getPaperById_first [of table_parse fs_malformed "''2503.00003''"] bad
  have three: "getPaperById table_parse fs_malformed ''2503.00003'' = Inl (SyntaxError ''Unexpected token in JSON'')"
    by blast
  from one two three bad show ?thesis
    by (simp add: all_fs_example ids)
qed

section \<open>Reading and writing one document\<close>

lemma entries_writeFileSync:
  "entries (writeFileSync s name raw) = AList.update name raw (entries s)"
  by (simp add: writeFileSync_def entries_def)

lemma readFileSync_writeFileSync: "readFileSync (writeFileSync s name raw) name = Inr raw"
  by (simp add: readFileSync_def entries_writeFileSync update_conv')

lemma existsSync_writeFileSync: "existsSync (writeFileSync s name raw) name"
  by (simp add: existsSync_def entries_writeFileSync update_conv')

text \<open>
  C2. For a document \<open>d\<close> that \<^verbatim>\<open>JSON.parse\<close> reads back from the text \<^verbatim>\<open>JSON.stringify\<close>
  prints for it (its fields are representable in JSON), \<open>saveDailyPapers\<close> followed by
  \<open>getPapersForDate\<close> at the date of \<open>d\<close> returns \<open>d\<close>, whatever the store held before: the
  file of that date then holds the text of \<open>d\<close> and nothing of an earlier document.
\<close>

theorem save_then_get:
  assumes "parse (stringify d) = Inr (Some d)"
  shows "getPapersForDate parse (saveDailyPapers stringify s d) (date d) = Inr (Some d)
         \<and> readFileSync (saveDailyPapers stringify s d) (date d @ ''.json'') = Inr (stringify d)"
  using assms
  by (simp add: getPapersForDate_def saveDailyPapers_def Let_def existsSync_ensureContentDir
      readFileSync_ensureContentDir existsSync_writeFileSync readFileSync_writeFileSync)

theorem save_then_get_witness:
  "table_parse (table_stringify daily4) = Inr (Some daily4)
   \<and> date daily4 = ''2025-01-15''
   \<and> readFileSync fs_example ''2025-01-15.json'' = Inr ''null''
   \<and> getPapersForDate table_parse (saveDailyPapers table_stringify fs_example daily4) ''2025-01-15''
       = Inr (Some daily4)
   \<and> readFileSync (saveDailyPapers table_stringify fs_example daily4) ''2025-01-15.json''
       = Inr raw_daily4"
proof -
  have rt: "table_parse (table_stringify daily4) = Inr (Some daily4)"
    by code_simp
  have dt: "date daily4 = ''2025-01-15''"
    by (simp add: daily4_def)
  have old: "readFileSync fs_example ''2025-01-15.json'' = Inr ''null''"
    by (simp add: readFileSync_def fs_example_def entries_def)
  have pr: "table_stringify daily4 = raw_daily4"
    by (simp add: table_stringify_def)
  from save_then_get [of table_parse table_stringify daily4 fs_example, OF rt] dt pr old rt
  show ?thesis
    by simp
qed

text \<open>
  C7, as the code has it. \<open>getPapersForDate\<close> returns nothing, and no error, when the date
  has no file. When the file exists, the call returns what \<^verbatim>\<open>JSON.parse\<close> makes of its
  text, unchecked: text that is no JSON makes the call fail with the parse error, and the
  text \<^verbatim>\<open>null\<close> is returned as nothing. So nothing is returned when there is no file or the
  text parses to \<^verbatim>\<open>null\<close>, and an error is always a parse error.
\<close>

theorem getPapersForDate_cases:
  "(\<not> existsSync s (d @ ''.json'') \<longrightarrow> getPapersForDate parse s d = Inr None)
   \<and> (\<forall>raw. readFileSync s (d @ ''.json'') = Inr raw \<longrightarrow>
          existsSync s (d @ ''.json'') \<and> getPapersForDate parse s d = parse raw)
   \<and> (getPapersForDate parse s d = Inr None \<longleftrightarrow>
        (\<not> existsSync s (d @ ''.json'')
         \<or> (\<exists>raw. readFileSync s (d @ ''.json'') = Inr raw \<and> parse raw = Inr None)))
   \<and> (\<forall>e. getPapersForDate parse s d = Inl e \<longleftrightarrow>
          (\<exists>raw. readFileSync s (d @ ''.json'') = Inr raw \<and> parse raw = Inl e))"
  by (auto simp: getPapersForDate_def Let_def existsSync_ensureContentDir
      readFileSync_ensureContentDir existsSync_readFileSync split: sum.splits)

theorem getPapersForDate_cases_witness:
  "existsSync fs_example ''1999-01-01.json'' = False
   \<and> getPapersForDate table_parse fs_example ''1999-01-01'' = Inr None
   \<and> readFileSync fs_example ''2025-03-01.json'' = Inr raw_daily2
   \<and> getPapersForDate table_parse fs_example ''2025-03-01'' = Inr (Some daily2)
   \<and> readFileSync fs_malformed ''2025-02-01.json'' = Inr ''{broken''
   \<and> getPapersForDate table_parse fs_malformed ''2025-02-01''
       = Inl (SyntaxError ''Unexpected token in JSON'')"
proof -
  have no: "\<not> existsSync fs_example (''1999-01-01'' @ ''.json'')"
    by (simp add: existsSync_def fs_example_def entries_def)
  have r2: "readFileSync fs_example (''2025-03-01'' @ ''.json'') = Inr raw_daily2"
    by (simp add: readFileSync_def fs_example_def entries_def)
  have p2: "table_parse raw_daily2 = Inr (Some daily2)"
    by code_simp
  have r3: "readFileSync fs_malformed (''2025-02-01'' @ ''.json'') = Inr ''{broken''"
    by (simp add: readFileSync_def fs_malformed_def entries_def)
  have p3: "table_parse ''{broken'' = Inl (SyntaxError ''Unexpected token in JSON'')"
    by code_simp
  from getPapersForDate_cases [of fs_example "''1999-01-01''" table_parse] no
  have a: "getPapersForDate table_parse fs_example ''1999-01-01'' = Inr None"
    by blast
  from getPapersForDate_cases [of fs_example "''2025-03-01''" table_parse] r2
  have "getPapersForDate table_parse fs_example ''2025-03-01'' = table_parse raw_daily2"
    by blast
  with p2 have b: "getPapersForDate table_parse fs_example ''2025-03-01'' = Inr (Some daily2)"
    by simp
  from getPapersForDate_cases [of fs_malformed "''2025-02-01''" table_parse] r3
  have "getPapersForDate table_parse fs_malformed ''2025-02-01'' = table_parse ''{broken''"
    by blast
  with p3 have c: "getPapersForDate table_parse fs_malformed ''2025-02-01''
       = Inl (SyntaxError ''Unexpected token in JSON'')"
    by simp
  from no r2 r3 a b c show ?thesis
    by simp
qed

text \<open>
  The claim C7 as stated fails on a file whose text is \<^verbatim>\<open>null\<close>: the file exists, is no
  document, and the call returns nothing, as it does for a date without a file.
\<close>

theorem getPapersForDate_null_counterexample:
  "existsSync fs_example ''2025-01-15.json''
   \<and> readFileSync fs_example ''2025-01-15.json'' = Inr ''null''
   \<and> getPapersForDate table_parse fs_example ''2025-01-15'' = Inr None"
  by code_simp

section \<open>The dates of the store\<close>

lemma getLatestPapers_first:
  "getLatestPapers parse s =
     (case getAllDates s of [] \<Rightarrow> Inr None | d # ds \<Rightarrow> getPapersForDate parse s d)"
  by (simp add: getLatestPapers_def Let_def split: list.splits)

lemma getAllDates_descending: "sorted (rev (getAllDates s))"
  by (simp add: getAllDates_def)

lemma set_getAllDates:
  "set (getAllDates s) = replace ''.json'' [] ` {f \<in> set (readdirSync s). endsWith f ''.json''}"
  by (auto simp: getAllDates_def readdirSync_ensureContentDir)

text \<open>
  C5, where the code departs from it: two files whose names differ, both ending in
  \<^verbatim>\<open>.json\<close>, give the same string twice, since \<^verbatim>\<open>replace\<close> removes the first \<^verbatim>\<open>.json\<close> of a
  name and not its suffix.
\<close>

theorem getAllDates_twice:
  "readdirSync fs_twice = [''.jsona.json'', ''a.json.json'']
   \<and> distinct (readdirSync fs_twice)
   \<and> getAllDates fs_twice = [''a.json'', ''a.json'']
   \<and> \<not> distinct (getAllDates fs_twice)"
  by code_simp

lemma isDate_no_dot: "isDate d \<Longrightarrow> CHR ''.'' \<notin> set d"
  by (cases d rule: isDate.cases) (auto simp: isDigit_def)

lemma replace_json_suffix:
  "CHR ''.'' \<notin> set d \<Longrightarrow> replace ''.json'' [] (d @ ''.json'') = d"
  by (induction d) auto

lemma replace_Cons_no_prefix:
  "\<not> prefix pat (c # cs) \<Longrightarrow> replace pat rep (c # cs) = c # replace pat rep cs"
  by simp

lemma replace_Cons_prefix:
  "prefix pat (c # cs) \<Longrightarrow> replace pat rep (c # cs) = rep @ drop (length pat) (c # cs)"
  by simp

lemma prefix_json_Cons:
  assumes "prefix ''.json'' (c # g @ ''.json'')"
  shows "\<exists>g'. g = ''json'' @ g'"
proof -
  from assms obtain r where "c # g @ ''.json'' = ''.json'' @ r"
    by (auto simp: prefix_def)
  then show ?thesis
    by (auto simp: append_eq_Cons_conv Cons_eq_append_conv)
qed

lemma replace_json_no_dot:
  "CHR ''.'' \<notin> set (replace ''.json'' [] (g @ ''.json'')) \<Longrightarrow>
   replace ''.json'' [] (g @ ''.json'') = g"
proof (induction g)
  case Nil
  then show ?case by simp
next
  case (Cons c g)
  from Cons.prems
  have prems: "CHR ''.'' \<notin> set (replace ''.json'' [] (c # g @ ''.json''))"
    unfolding append_Cons .
  show ?case
  proof (cases "prefix ''.json'' (c # g @ ''.json'')")
    case True
    then obtain g' where g': "g = ''json'' @ g'"
      using prefix_json_Cons by blast
    from True have "replace ''.json'' [] (c # g @ ''.json'') =
                    [] @ drop (length ''.json'') (c # g @ ''.json'')"
      by (rule replace_Cons_prefix)
    then have r: "replace ''.json'' [] (c # g @ ''.json'') = g' @ ''.json''"
      by (simp add: g')
    from prems have "CHR ''.'' \<notin> set (g' @ ''.json'')"
      unfolding r .
    then show ?thesis
      by simp
  next
    case False
    then have eq: "replace ''.json'' [] (c # g @ ''.json'') =
                   c # replace ''.json'' [] (g @ ''.json'')"
      by (rule replace_Cons_no_prefix)
    with prems have "CHR ''.'' \<notin> set (replace ''.json'' [] (g @ ''.json''))"
      by simp
    then have "replace ''.json'' [] (g @ ''.json'') = g"
      by (rule Cons.IH)
    with eq show ?thesis
      by (simp only: append_Cons)
  qed
qed

lemma getAllDates_no_dot:
  assumes nd: "CHR ''.'' \<notin> set d"
  shows "d \<in> set (getAllDates s) \<longleftrightarrow> d @ ''.json'' \<in> set (readdirSync s)"
proof
  assume "d \<in> set (getAllDates s)"
  then obtain f where f: "f \<in> set (readdirSync s)" "endsWith f ''.json''"
    and d: "d = replace ''.json'' [] f"
    by (auto simp: set_getAllDates)
  from f(2) obtain g where g: "f = g @ ''.json''"
    by (auto simp: endsWith_def suffix_def)
  from nd d g have "replace ''.json'' [] (g @ ''.json'') = g"
    by (intro replace_json_no_dot) simp
  with d g f(1) show "d @ ''.json'' \<in> set (readdirSync s)"
    by simp
next
  assume "d @ ''.json'' \<in> set (readdirSync s)"
  moreover have "endsWith (d @ ''.json'') ''.json''"
    by (simp add: endsWith_def suffix_def)
  moreover have "replace ''.json'' [] (d @ ''.json'') = d"
    using nd by (rule replace_json_suffix)
  ultimately show "d \<in> set (getAllDates s)"
    unfolding set_getAllDates by force
qed

lemma getAllDates_json_only:
  "getAllDates s =
     getAllDates (Some (filter (\<lambda>entry. endsWith (fst entry) ''.json'') (entries s)))"
  by (simp add: getAllDates_def readdirSync_def entries_ensureContentDir
      ensureContentDir_def dirExists_def mkdirSync_def entries_def filter_map comp_def)

text \<open>
  When the names that end in \<^verbatim>\<open>.json\<close> hold no other dot, as the names of date documents
  do, the strings returned are distinct and strictly descending.
\<close>

lemma getAllDates_strictly_descending:
  assumes dist: "distinct (readdirSync s)"
    and names: "\<forall>f \<in> set (readdirSync s). \<forall>g. f = g @ ''.json'' \<longrightarrow> CHR ''.'' \<notin> set g"
  shows "distinct (getAllDates s) \<and> sorted_wrt (\<lambda>a b. b < a) (getAllDates s)"
proof -
  let ?fs = "filter (\<lambda>f. endsWith f ''.json'') (readdirSync s)"
  let ?ds = "map (\<lambda>f. replace ''.json'' [] f) ?fs"
  have strip: "f = replace ''.json'' [] f @ ''.json''" if "f \<in> set ?fs" for f
  proof -
    from that obtain g where g: "f = g @ ''.json''"
      by (auto simp: endsWith_def suffix_def)
    with that names have "CHR ''.'' \<notin> set g"
      by auto
    then have "replace ''.json'' [] (g @ ''.json'') = g"
      by (rule replace_json_suffix)
    with g show ?thesis
      by simp
  qed
  have "inj_on (\<lambda>f. replace ''.json'' [] f) (set ?fs)"
  proof (rule inj_onI)
    fix x y
    assume "x \<in> set ?fs" "y \<in> set ?fs" "replace ''.json'' [] x = replace ''.json'' [] y"
    with strip [of x] strip [of y] show "x = y"
      by simp
  qed
  moreover from dist have "distinct ?fs"
    by simp
  ultimately have d: "distinct ?ds"
    by (simp add: distinct_map)
  have eq: "getAllDates s = rev (sort ?ds)"
    by (simp add: getAllDates_def readdirSync_ensureContentDir)
  from d have "sorted_wrt (<) (sort ?ds)"
    by (simp add: strict_sorted_iff)
  then have "sorted_wrt (\<lambda>a b. b < a) (rev (sort ?ds))"
    by (simp add: sorted_wrt_rev)
  with d eq show ?thesis
    by simp
qed

text \<open>
  C6, as the code has it. For a string \<open>d\<close> without a dot, so for every \<open>d\<close> of the form
  \<^verbatim>\<open>YYYY-MM-DD\<close>, \<open>getAllDates\<close> returns \<open>d\<close> exactly when the directory has the entry
  \<open>d\<close>\<^verbatim>\<open>.json\<close>; the entries whose names do not end in \<^verbatim>\<open>.json\<close> are ignored, the result
  being that of the directory without them.
\<close>

theorem getAllDates_entries:
  "(\<forall>d. CHR ''.'' \<notin> set d \<longrightarrow>
        (d \<in> set (getAllDates s) \<longleftrightarrow> d @ ''.json'' \<in> set (readdirSync s)))
   \<and> (\<forall>d. isDate d \<longrightarrow>
        (d \<in> set (getAllDates s) \<longleftrightarrow> d @ ''.json'' \<in> set (readdirSync s)))
   \<and> getAllDates s =
       getAllDates (Some (filter (\<lambda>entry. endsWith (fst entry) ''.json'') (entries s)))"
  using getAllDates_no_dot isDate_no_dot getAllDates_json_only by blast

theorem getAllDates_entries_witness:
  "isDate ''2025-02-01''
   \<and> ''2025-02-01.json'' \<in> set (readdirSync fs_example)
   \<and> ''2025-02-01'' \<in> set (getAllDates fs_example)
   \<and> CHR ''.'' \<notin> set ''index''
   \<and> ''index.json'' \<in> set (readdirSync fs_index)
   \<and> ''index'' \<in> set (getAllDates fs_index)
   \<and> ''README.md'' \<in> set (readdirSync fs_example)
   \<and> getAllDates fs_example =
       getAllDates (Some [(''2025-02-01.json'', raw_daily1), (''2025-03-01.json'', raw_daily2),
                          (''2025-01-10.json'', raw_daily3), (''2025-01-15.json'', ''null'')])"
proof -
  have a: "isDate ''2025-02-01''"
    by (simp add: isDigit_def)
  have b: "''2025-02-01'' @ ''.json'' \<in> set (readdirSync fs_example)"
    by (simp add: readdirSync_def fs_example_def entries_def)
  have c: "''README.md'' \<in> set (readdirSync fs_example)"
    by (simp add: readdirSync_def fs_example_def entries_def)
  have d: "filter (\<lambda>entry. endsWith (fst entry) ''.json'') (entries fs_example) =
       [(''2025-02-01.json'', raw_daily1), (''2025-03-01.json'', raw_daily2),
        (''2025-01-10.json'', raw_daily3), (''2025-01-15.json'', ''null'')]"
    by (simp add: fs_example_def entries_def endsWith_def suffix_to_prefix)
  have i: "CHR ''.'' \<notin> set ''index''"
    by simp
  have j: "''index'' @ ''.json'' \<in> set (readdirSync fs_index)"
    by (simp add: readdirSync_def fs_index_def entries_def)
  note th = getAllDates_entries [of fs_example]
  from th a b have e: "''2025-02-01'' \<in> set (getAllDates fs_example)"
    by blast
  from th have "getAllDates fs_example =
       getAllDates (Some (filter (\<lambda>entry. endsWith (fst entry) ''.json'') (entries fs_example)))"
    by blast
  with d have f: "getAllDates fs_example =
       getAllDates (Some [(''2025-02-01.json'', raw_daily1), (''2025-03-01.json'', raw_daily2),
                          (''2025-01-10.json'', raw_daily3), (''2025-01-15.json'', ''null'')])"
    by simp
  from getAllDates_entries [of fs_index] i j have k: "''index'' \<in> set (getAllDates fs_index)"
    by blast
  from a b c e f i j k show ?thesis
    by simp
qed

text \<open>
  The claim C6 as stated fails on a JSON file that is not named after a date: its name,
  without the suffix, is returned.
\<close>

theorem getAllDates_index_counterexample:
  "readdirSync fs_index = [''2025-01-15.json'', ''index.json'']
   \<and> getAllDates fs_index = [''index'', ''2025-01-15'']
   \<and> \<not> isDate ''index''"
  by code_simp

section \<open>The limit of the adapters\<close>

lemma slice_from_0:
  "slice xs 0 n =
     take (nat (if n < 0 then max (int (length xs) + n) 0 else min n (int (length xs)))) xs"
  by (simp add: slice_def Let_def)

lemma prefix_slice: "prefix (slice xs 0 n) xs"
  unfolding slice_from_0 by (rule take_is_prefix)

lemma slice_positive: "0 < n \<Longrightarrow> slice xs 0 n = take (nat n) xs"
  by (simp add: slice_from_0 min_def)

lemma slice_zero: "slice xs 0 0 = []"
  by (simp add: slice_from_0)

lemma search_nlp_fs_example:
  "searchPapers table_parse fs_example ''nlp'' = Inr [mockPaper1, mockPaper2]"
  by code_simp

text \<open>
  C8, as the code has it. For a non-empty query whose search succeeds, the response is 200,
  its papers are a prefix of the search result, never longer than it, and its total is the
  length of the papers returned; when the limit parameter parses to a positive integer
  \<open>n\<close>, the papers are the first \<open>n\<close> of the result, at most \<open>n\<close> of them. A failing search
  gives the response 500.
\<close>

theorem papers_GET_search:
  "(qu \<noteq> [] \<longrightarrow> searchPapers parse s qu = Inr results \<longrightarrow>
      (\<exists>ps. papers_GET parse s \<lparr>param_date = dt, param_q = Some qu, param_limit = lim\<rparr>
               = \<lparr>status = 200, body = SearchBody ps (length ps)\<rparr>
            \<and> prefix ps results \<and> length ps \<le> length results
            \<and> (\<forall>l n. lim = Some l \<longrightarrow> parseInt l = Num n \<longrightarrow> 0 < n \<longrightarrow>
                   ps = take (nat n) results \<and> length ps \<le> nat n)))
   \<and> (\<forall>e. qu \<noteq> [] \<longrightarrow> searchPapers parse s qu = Inl e \<longrightarrow>
         papers_GET parse s \<lparr>param_date = dt, param_q = Some qu, param_limit = lim\<rparr>
           = \<lparr>status = 500, body = ErrorBody ''Internal server error''\<rparr>)"
proof (intro conjI impI allI)
  assume q: "qu \<noteq> []" and r: "searchPapers parse s qu = Inr results"
  define limit where
    "limit = truthyNumber (case truthyString lim of Some l \<Rightarrow> Some (parseInt l) | None \<Rightarrow> None)"
  define ps where "ps = (case limit of Some n \<Rightarrow> slice results 0 n | None \<Rightarrow> results)"
  have resp: "papers_GET parse s \<lparr>param_date = dt, param_q = Some qu, param_limit = lim\<rparr>
               = \<lparr>status = 200, body = SearchBody ps (length ps)\<rparr>"
    using q r by (simp add: papers_GET_def truthyString_def Let_def ps_def limit_def)
  have pre: "prefix ps results"
    by (cases limit) (simp_all add: ps_def prefix_slice)
  then have len: "length ps \<le> length results"
    by (rule prefix_length_le)
  have lim: "ps = take (nat n) results \<and> length ps \<le> nat n"
    if "lim = Some l" "parseInt l = Num n" "0 < n" for l n
  proof -
    from that have "l \<noteq> []"
      by (auto simp: parseInt_def)
    with that have "limit = Some n"
      by (simp add: limit_def truthyString_def truthyNumber_def)
    with that show ?thesis
      by (simp add: ps_def slice_positive)
  qed
  from resp pre len lim
  show "\<exists>ps. papers_GET parse s \<lparr>param_date = dt, param_q = Some qu, param_limit = lim\<rparr>
               = \<lparr>status = 200, body = SearchBody ps (length ps)\<rparr>
            \<and> prefix ps results \<and> length ps \<le> length results
            \<and> (\<forall>l n. lim = Some l \<longrightarrow> parseInt l = Num n \<longrightarrow> 0 < n \<longrightarrow>
                   ps = take (nat n) results \<and> length ps \<le> nat n)"
    by blast
next
  fix e
  assume "qu \<noteq> []" and "searchPapers parse s qu = Inl e"
  then show "papers_GET parse s \<lparr>param_date = dt, param_q = Some qu, param_limit = lim\<rparr>
           = \<lparr>status = 500, body = ErrorBody ''Internal server error''\<rparr>"
    by (simp add: papers_GET_def truthyString_def Let_def internalError_def)
qed

theorem papers_GET_search_witness:
  "searchPapers table_parse fs_example ''nlp'' = Inr [mockPaper1, mockPaper2]
   \<and> parseInt ''1'' = Num 1
   \<and> papers_GET table_parse fs_example
        \<lparr>param_date = None, param_q = Some ''nlp'', param_limit = Some ''1''\<rparr>
       = \<lparr>status = 200, body = SearchBody [mockPaper1] 1\<rparr>
   \<and> searchPapers table_parse fs_malformed ''nlp'' = Inl (SyntaxError ''Unexpected token in JSON'')
   \<and> papers_GET table_parse fs_malformed
        \<lparr>param_date = None, param_q = Some ''nlp'', param_limit = Some ''1''\<rparr>
       = \<lparr>status = 500, body = ErrorBody ''Internal server error''\<rparr>"
proof -
  have q: "''nlp'' \<noteq> []"
    by simp
  have p: "parseInt ''1'' = Num 1"
    by code_simp
  have bad: "searchPapers table_parse fs_malformed ''nlp'' = Inl (SyntaxError ''Unexpected token in JSON'')"
    by code_simp
  from papers_GET_search [of "''nlp''" table_parse fs_example "[mockPaper1, mockPaper2]"
      None "Some ''1''"] q search_nlp_fs_example
  obtain ps where
    resp: "papers_GET table_parse fs_example
             \<lparr>param_date = None, param_q = Some ''nlp'', param_limit = Some ''1''\<rparr>
           = \<lparr>status = 200, body = SearchBody ps (length ps)\<rparr>"
    and cut: "\<forall>l n. Some ''1'' = Some l \<longrightarrow> parseInt l = Num n \<longrightarrow> 0 < n \<longrightarrow>
                ps = take (nat n) [mockPaper1, mockPaper2] \<and> length ps \<le> nat n"
    by blast
  from cut p have "ps = take (nat 1) [mockPaper1, mockPaper2]"
    by auto
  then have "ps = [mockPaper1]"
    by simp
  with resp have one: "papers_GET table_parse fs_example
        \<lparr>param_date = None, param_q = Some ''nlp'', param_limit = Some ''1''\<rparr>
       = \<lparr>status = 200, body = SearchBody [mockPaper1] 1\<rparr>"
    by simp
  from papers_GET_search [of "''nlp''" table_parse fs_malformed "[]" None "Some ''1''"] q bad
  have two: "papers_GET table_parse fs_malformed
        \<lparr>param_date = None, param_q = Some ''nlp'', param_limit = Some ''1''\<rparr>
       = \<lparr>status = 500, body = ErrorBody ''Internal server error''\<rparr>"
    by blast
  from search_nlp_fs_example p one bad two show ?thesis
    by blast
qed

text \<open>
  The claim C8 as stated fails at the limit 0: both papers that match are returned, more
  than the limit; and with an empty query the request is no search.
\<close>

theorem papers_GET_limit_0_counterexample:
  "parseInt ''0'' = Num 0
   \<and> searchPapers table_parse fs_example ''nlp'' = Inr [mockPaper1, mockPaper2]
   \<and> papers_GET table_parse fs_example
        \<lparr>param_date = None, param_q = Some ''nlp'', param_limit = Some ''0''\<rparr>
       = \<lparr>status = 200, body = SearchBody [mockPaper1, mockPaper2] 2\<rparr>
   \<and> (0 :: nat) < length [mockPaper1, mockPaper2]
   \<and> papers_GET table_parse fs_example
        \<lparr>param_date = None, param_q = Some [], param_limit = Some ''2''\<rparr>
       = \<lparr>status = 200,
          body = LatestBody (Some daily2)
                   [''2025-03-01'', ''2025-02-01'', ''2025-01-15'', ''2025-01-10'']\<rparr>"
  by code_simp

text \<open>
  C10. A limit parameter that parses to 0 or to \<^verbatim>\<open>NaN\<close> leaves the search result of the REST
  adapter as it is, and the limit 0 leaves the papers of \<^verbatim>\<open>get_papers_by_date\<close> as they are,
  although \<^verbatim>\<open>slice(0, 0)\<close> of an array is empty.
\<close>

theorem limit_0_is_no_limit:
  "(\<forall>l. qu \<noteq> [] \<longrightarrow> searchPapers parse s qu = Inr results \<longrightarrow>
        (parseInt l = Num 0 \<or> parseInt l = NaN) \<longrightarrow>
        papers_GET parse s \<lparr>param_date = dt, param_q = Some qu, param_limit = Some l\<rparr>
          = \<lparr>status = 200, body = SearchBody results (length results)\<rparr>)
   \<and> (getPapersForDate parse s d = Inr (Some daily) \<longrightarrow>
        executeTool parse s ''get_papers_by_date''
          \<lparr>arg_limit = Some 0, arg_date = Some d, arg_id = i, arg_query = qy\<rparr>
          = \<lparr>content = [Json (DatePayload (Some d) (papers daily))], isError = False\<rparr>)
   \<and> slice results 0 0 = []"
  by (auto simp: papers_GET_def truthyString_def truthyNumber_def Let_def executeTool_def
      executeTool_try_def template_def slice_zero)

theorem limit_0_is_no_limit_witness:
  "parseInt ''0'' = Num 0 \<and> parseInt ''abc'' = NaN
   \<and> searchPapers table_parse fs_example ''nlp'' = Inr [mockPaper1, mockPaper2]
   \<and> papers_GET table_parse fs_example
        \<lparr>param_date = None, param_q = Some ''nlp'', param_limit = Some ''0''\<rparr>
       = \<lparr>status = 200, body = SearchBody [mockPaper1, mockPaper2] 2\<rparr>
   \<and> papers_GET table_parse fs_example
        \<lparr>param_date = None, param_q = Some ''nlp'', param_limit = Some ''abc''\<rparr>
       = \<lparr>status = 200, body = SearchBody [mockPaper1, mockPaper2] 2\<rparr>
   \<and> getPapersForDate table_parse fs_example ''2025-02-01'' = Inr (Some daily1)
   \<and> executeTool table_parse fs_example ''get_papers_by_date''
        \<lparr>arg_limit = Some 0, arg_date = Some ''2025-02-01'', arg_id = None, arg_query = None\<rparr>
       = \<lparr>content = [Json (DatePayload (Some ''2025-02-01'') [mockPaper1, mockPaper2])],
          isError = False\<rparr>"
proof -
  have q: "''nlp'' \<noteq> []"
    by simp
  have p0: "parseInt ''0'' = Num 0" and pa: "parseInt ''abc'' = NaN"
    by code_simp+
  have g: "getPapersForDate table_parse fs_example ''2025-02-01'' = Inr (Some daily1)"
    by (rule documents_fs_example)
  have ps: "papers daily1 = [mockPaper1, mockPaper2]"
    by (simp add: daily1_def)
  note th = limit_0_is_no_limit [of "''nlp''" table_parse fs_example "[mockPaper1, mockPaper2]"
      None "''2025-02-01''" daily1 None None]
  from th q search_nlp_fs_example p0
  have a: "papers_GET table_parse fs_example
        \<lparr>param_date = None, param_q = Some ''nlp'', param_limit = Some ''0''\<rparr>
       = \<lparr>status = 200, body = SearchBody [mockPaper1, mockPaper2] 2\<rparr>"
    by auto
  from th q search_nlp_fs_example pa
  have b: "papers_GET table_parse fs_example
        \<lparr>param_date = None, param_q = Some ''nlp'', param_limit = Some ''abc''\<rparr>
       = \<lparr>status = 200, body = SearchBody [mockPaper1, mockPaper2] 2\<rparr>"
    by auto
  from th g
  have "executeTool table_parse fs_example ''get_papers_by_date''
        \<lparr>arg_limit = Some 0, arg_date = Some ''2025-02-01'', arg_id = None, arg_query = None\<rparr>
       = \<lparr>content = [Json (DatePayload (Some ''2025-02-01'') (papers daily1))],
          isError = False\<rparr>"
    by blast
  with ps have c: "executeTool table_parse fs_example ''get_papers_by_date''
        \<lparr>arg_limit = Some 0, arg_date = Some ''2025-02-01'', arg_id = None, arg_query = None\<rparr>
       = \<lparr>content = [Json (DatePayload (Some ''2025-02-01'') [mockPaper1, mockPaper2])],
          isError = False\<rparr>"
    by simp
  from p0 pa search_nlp_fs_example a b g c show ?thesis
    by blast
qed

section \<open>The dispatch of tool calls\<close>

lemma executeTool_try_unknown:
  "name \<notin> set TOOLS \<Longrightarrow>
   executeTool_try parse s name args =
     Inr \<lparr>content = [Text (''Unknown tool: '' @ name)], isError = True\<rparr>"
  by (auto simp: executeTool_try_def TOOLS_def)

text \<open>
  C9, as the code has it. A body without a name, or with the empty name, is answered by 400
  and a message that holds the word \<^verbatim>\<open>name\<close>. A non-empty name is answered by 200 and a tool
  result: for a name that is not in the catalog, the text \<^verbatim>\<open>Unknown tool:\<close> with the name and
  \<open>isError\<close>; for a tool whose execution throws, the text with the stringified error and
  \<open>isError\<close>.
\<close>

theorem mcp_POST_dispatch:
  "((req_name b = None \<or> req_name b = Some []) \<longrightarrow>
      mcp_POST parse s (Inr b) = \<lparr>status = 400, body = McpError ''Missing required field: name''\<rparr>)
   \<and> sublist ''name'' ''Missing required field: name''
   \<and> (\<forall>n. req_name b = Some n \<longrightarrow> n \<noteq> [] \<longrightarrow> n \<notin> set TOOLS \<longrightarrow>
         mcp_POST parse s (Inr b) =
           \<lparr>status = 200,
            body = McpResult \<lparr>content = [Text (''Unknown tool: '' @ n)], isError = True\<rparr>\<rparr>)
   \<and> (\<forall>n err. req_name b = Some n \<longrightarrow> n \<noteq> [] \<longrightarrow>
         executeTool_try parse s n (case req_arguments b of None \<Rightarrow> noArgs | Some a \<Rightarrow> a)
           = Inl err \<longrightarrow>
         mcp_POST parse s (Inr b) =
           \<lparr>status = 200,
            body = McpResult
              \<lparr>content = [Text (''Error executing tool '' @ quote @ n @ quote @ '': '' @ String err)],
               isError = True\<rparr>\<rparr>)
   \<and> (\<forall>n. req_name b = Some n \<longrightarrow> n \<noteq> [] \<longrightarrow>
         (\<exists>r. mcp_POST parse s (Inr b) = \<lparr>status = 200, body = McpResult r\<rparr>))"
proof -
  have "''Missing required field: name'' = ''Missing required field: '' @ ''name'' @ []"
    by simp
  then have "sublist ''name'' ''Missing required field: name''"
    unfolding sublist_def by blast
  then show ?thesis
    by (auto simp: mcp_POST_def truthyString_def executeTool_def executeTool_try_unknown)
qed

theorem mcp_POST_dispatch_witness:
  "mcp_POST table_parse fs_example (Inr \<lparr>req_name = None, req_arguments = Some noArgs\<rparr>)
     = \<lparr>status = 400, body = McpError ''Missing required field: name''\<rparr>
   \<and> mcp_POST table_parse fs_example (Inr \<lparr>req_name = Some ''unknown_tool'', req_arguments = Some noArgs\<rparr>)
     = \<lparr>status = 200,
        body = McpResult \<lparr>content = [Text ''Unknown tool: unknown_tool''], isError = True\<rparr>\<rparr>
   \<and> executeTool_try table_parse fs_malformed ''get_latest_papers'' noArgs
     = Inl (SyntaxError ''Unexpected token in JSON'')
   \<and> mcp_POST table_parse fs_malformed (Inr \<lparr>req_name = Some ''get_latest_papers'', req_arguments = None\<rparr>)
     = \<lparr>status = 200,
        body = McpResult
          \<lparr>content = [Text (''Error executing tool '' @ quote @ ''get_latest_papers'' @ quote @
                              '': SyntaxError: Unexpected token in JSON'')],
           isError = True\<rparr>\<rparr>"
proof -
  have u: "''unknown_tool'' \<notin> set TOOLS"
    by (simp add: TOOLS_def)
  have t: "executeTool_try table_parse fs_malformed ''get_latest_papers'' noArgs
     = Inl (SyntaxError ''Unexpected token in JSON'')"
    by code_simp
  have st: "String (SyntaxError ''Unexpected token in JSON'') = ''SyntaxError: Unexpected token in JSON''"
    by (simp add: String_def)
  from mcp_POST_dispatch [of "\<lparr>req_name = None, req_arguments = Some noArgs\<rparr>" table_parse fs_example]
  have a: "mcp_POST table_parse fs_example (Inr \<lparr>req_name = None, req_arguments = Some noArgs\<rparr>)
     = \<lparr>status = 400, body = McpError ''Missing required field: name''\<rparr>"
    by simp
  from mcp_POST_dispatch [of "\<lparr>req_name = Some ''unknown_tool'', req_arguments = Some noArgs\<rparr>"
      table_parse fs_example] u
  have b: "mcp_POST table_parse fs_example (Inr \<lparr>req_name = Some ''unknown_tool'', req_arguments = Some noArgs\<rparr>)
     = \<lparr>status = 200,
        body = McpResult \<lparr>content = [Text ''Unknown tool: unknown_tool''], isError = True\<rparr>\<rparr>"
    by simp
  from mcp_POST_dispatch [of "\<lparr>req_name = Some ''get_latest_papers'', req_arguments = None\<rparr>"
      table_parse fs_malformed] t
  have c: "mcp_POST table_parse fs_malformed (Inr \<lparr>req_name = Some ''get_latest_papers'', req_arguments = None\<rparr>)
     = \<lparr>status = 200,
        body = McpResult
          \<lparr>content = [Text (''Error executing tool '' @ quote @ ''get_latest_papers'' @ quote @
                              '': SyntaxError: Unexpected token in JSON'')],
           isError = True\<rparr>\<rparr>"
    by (simp add: st)
  from a b t c show ?thesis
    by blast
qed

text \<open>
  The claim C9 as stated fails on the empty name: the body has a name, the name is that of
  no tool, and the answer is 400, not the tool result \<^verbatim>\<open>Unknown tool:\<close>.
\<close>

theorem mcp_POST_empty_name_counterexample:
  "[] \<notin> set TOOLS
   \<and> mcp_POST table_parse fs_example (Inr \<lparr>req_name = Some [], req_arguments = Some noArgs\<rparr>)
       = \<lparr>status = 400, body = McpError ''Missing required field: name''\<rparr>
   \<and> mcp_POST table_parse fs_example (Inr \<lparr>req_name = Some [], req_arguments = Some noArgs\<rparr>)
       \<noteq> \<lparr>status = 200,
           body = McpResult \<lparr>content = [Text (''Unknown tool: '' @ [])], isError = True\<rparr>\<rparr>"
  by (simp add: TOOLS_def mcp_POST_def truthyString_def)


end
